theory Spec2Isabelle
  imports Complex_Main "HOL-Library.Monad_Syntax"
begin

section \<open>Data model\<close>

text \<open>
  Go strings are byte sequences: \<open>string\<close> (a \<open>char list\<close>). A \<open>time.Duration\<close> is a
  signed count of nanoseconds; no arithmetic is done on it here, it is only passed on.
\<close>

type_synonym duration = int

text \<open>
  A \<open>float64\<close> is only ever compared with zero (\<open>x > 0\<close>). The comparison is the
  IEEE one: false for NaN, for negative infinity and for both zeros, true for positive
  infinity.
\<close>

datatype float64 = Finite real | PosInf | NegInf | NaN

fun gt_zero :: "float64 \<Rightarrow> bool" where
  "gt_zero (Finite r) = (0 < r)"
| "gt_zero PosInf = True"
| "gt_zero NegInf = False"
| "gt_zero NaN = False"

subsection \<open>gRPC status codes and errors\<close>

text \<open>
  The status codes of \<open>google.golang.org/grpc/codes\<close>, in their numeric order.
\<close>

datatype code =
    OK | Canceled | Unknown | InvalidArgument | DeadlineExceeded | NotFound
  | AlreadyExists | PermissionDenied | ResourceExhausted | FailedPrecondition
  | Aborted | OutOfRange | Unimplemented | Internal | Unavailable | DataLoss
  | Unauthenticated

text \<open>
  A non-nil Go \<open>error\<close> is either one that carries a gRPC status (as built by
  \<open>status.Error(code, msg)\<close>) or any other error (as built by \<open>errors.New(msg)\<close>).
  The nil error is \<open>None\<close>.
\<close>

datatype error = StatusError code string | PlainError string

text \<open>
  \<open>status.FromError(err)\<close> followed by \<open>st.Code()\<close>: on nil it answers \<open>(nil, true)\<close>
  and the code of a nil status is \<open>OK\<close>; on an error carrying a status it answers that
  status with \<open>true\<close>; on any other error it answers a status of code \<open>Unknown\<close> with
  \<open>false\<close>.
\<close>

fun FromError :: "error option \<Rightarrow> code \<times> bool" where
  "FromError None = (OK, True)"
| "FromError (Some (StatusError c msg)) = (c, True)"
| "FromError (Some (PlainError msg)) = (Unknown, False)"

subsection \<open>Sink operations\<close>

text \<open>
  The interceptor and the recorder only call methods of the \<open>CalculatorMetrics\<close>
  interface and the two technical methods of \<open>PrometheusMetrics\<close>. A run is modelled
  by the sequence of these calls, in program order, with their arguments.
\<close>

datatype event =
    IncrementCalculationsTotal string
  | RecordCalculationDuration string duration
  | SetActiveCalculations int
  | IncrementCalculationErrors string string
  | RecordDoughAccuracy float64
  | IncrementIngredientValidations string bool
  | RecordDoughWeight float64
  | RecordDoughHydration float64
  | IncrementRecipeTypes string
  | IncrementGRPCRequests string string
  | RecordGRPCDuration string duration

text \<open>The methods of the domain interface, as opposed to the two technical ones.\<close>

fun is_domain :: "event \<Rightarrow> bool" where
  "is_domain (IncrementGRPCRequests m s) = False"
| "is_domain (RecordGRPCDuration m d) = False"
| "is_domain e = True"

text \<open>
  The weight, hydration, accuracy, ingredient-validation and recipe-type operations.
\<close>

fun is_quality :: "event \<Rightarrow> bool" where
  "is_quality (RecordDoughAccuracy a) = True"
| "is_quality (IncrementIngredientValidations i v) = True"
| "is_quality (RecordDoughWeight w) = True"
| "is_quality (RecordDoughHydration h) = True"
| "is_quality (IncrementRecipeTypes r) = True"
| "is_quality e = False"

text \<open>
  Both sinks of the sources (\<open>PrometheusMetrics\<close> and the mocks of the tests) implement
  \<open>SetActiveCalculations(count)\<close> by storing \<open>count\<close> in the gauge; no other method
  touches the gauge. \<open>gauge_after g es\<close> is the value of the gauge after the calls
  \<open>es\<close> have run from the value \<open>g\<close>, and \<open>gauge_writes es\<close> lists the values that
  \<open>es\<close> stores in the gauge, in order.
\<close>

fun gauge_step :: "int \<Rightarrow> event \<Rightarrow> int" where
  "gauge_step g (SetActiveCalculations count) = count"
| "gauge_step g e = g"

definition gauge_after :: "int \<Rightarrow> event list \<Rightarrow> int" where
  "gauge_after g es = foldl gauge_step g es"

fun gauge_writes :: "event list \<Rightarrow> int list" where
  "gauge_writes [] = []"
| "gauge_writes (SetActiveCalculations count # es) = count # gauge_writes es"
| "gauge_writes (e # es) = gauge_writes es"

section \<open>Method classifier\<close>

definition calculationMethods :: "string list" where
  "calculationMethods =
     [''/calculator.CalculatorService/CalculateDough'',
      ''/calculator.CalculatorService/CalculateIngredients'',
      ''/calculator.CalculatorService/OptimizeRecipe'']"

fun isCalculationMethod_loop :: "string \<Rightarrow> string list \<Rightarrow> bool" where
  "isCalculationMethod_loop fullMethod [] = False"
| "isCalculationMethod_loop fullMethod (method # rest) =
     (if fullMethod = method then True else isCalculationMethod_loop fullMethod rest)"

definition isCalculationMethod :: "string \<Rightarrow> bool" where
  "isCalculationMethod fullMethod = isCalculationMethod_loop fullMethod calculationMethods"

definition getCalculationType :: "string \<Rightarrow> string" where
  "getCalculationType fullMethod =
     (if fullMethod = ''/calculator.CalculatorService/CalculateDough'' then ''dough_calculation''
      else if fullMethod = ''/calculator.CalculatorService/CalculateIngredients''
        then ''ingredient_calculation''
      else if fullMethod = ''/calculator.CalculatorService/OptimizeRecipe''
        then ''recipe_optimization''
      else ''unknown_calculation'')"

section \<open>Error taxonomy\<close>

definition getStatusCode :: "error option \<Rightarrow> string" where
  "getStatusCode err =
     (if err = None then ''success''
      else (case FromError err of
        (c, ok) \<Rightarrow>
          if ok then
            (case c of
               OK \<Rightarrow> ''success''
             | InvalidArgument \<Rightarrow> ''invalid_argument''
             | NotFound \<Rightarrow> ''not_found''
             | Internal \<Rightarrow> ''internal_error''
             | Unavailable \<Rightarrow> ''unavailable''
             | _ \<Rightarrow> ''error'')
          else ''error''))"

definition getErrorType :: "error option \<Rightarrow> string" where
  "getErrorType err =
     (case FromError err of
        (c, ok) \<Rightarrow>
          if ok then
            (case c of
               InvalidArgument \<Rightarrow> ''invalid_input''
             | NotFound \<Rightarrow> ''recipe_not_found''
             | Internal \<Rightarrow> ''calculation_error''
             | Unavailable \<Rightarrow> ''service_unavailable''
             | DeadlineExceeded \<Rightarrow> ''timeout''
             | _ \<Rightarrow> ''unknown_error'')
          else ''unknown_error'')"

section \<open>Method-address parsing\<close>

text \<open>
  Go's \<open>s[i]\<close> and \<open>s[lo:hi]\<close> panic when an index is out of range. The panic is the
  value \<open>None\<close>. Indices are Go \<open>int\<close>s; the only arithmetic on them is \<open>\<plusminus> 1\<close>
  within the length of a string, so they are modelled as \<open>int\<close>.
\<close>

definition go_index :: "'a list \<Rightarrow> int \<Rightarrow> 'a option" where
  "go_index s i = (if 0 \<le> i \<and> i < int (length s) then Some (s ! nat i) else None)"

definition go_slice :: "'a list \<Rightarrow> int \<Rightarrow> int \<Rightarrow> 'a list option" where
  "go_slice s lo hi =
     (if 0 \<le> lo \<and> lo \<le> hi \<and> hi \<le> int (length s)
      then Some (take (nat (hi - lo)) (drop (nat lo) s)) else None)"

text \<open>\<open>for i := len(s) - 1; i >= 0; i--\<close>, returning at the first slash met.\<close>

function splitMethod_loop :: "string \<Rightarrow> int \<Rightarrow> string list option" where
  "splitMethod_loop s i =
     (if i \<ge> 0 then
        do {
          c \<leftarrow> go_index s i;
          if c = CHR ''/'' then
            do {
              a \<leftarrow> go_slice s 0 i;
              b \<leftarrow> go_slice s (i + 1) (int (length s));
              Some [a, b]
            }
          else splitMethod_loop s (i - 1)
        }
      else Some [s])"
  by pat_completeness auto
termination
  by (relation "measure (\<lambda>(s, i). nat (i + 1))") auto

definition splitMethod :: "string \<Rightarrow> string list option" where
  "splitMethod s = splitMethod_loop s (int (length s) - 1)"

text \<open>
  \<open>for i := 0; i < len(s); i++\<close> with the loop variables \<open>parts\<close> and \<open>start\<close>, followed
  by the final \<open>if start < len(s)\<close>.
\<close>

function splitService_loop :: "string \<Rightarrow> string list \<Rightarrow> int \<Rightarrow> int \<Rightarrow> string list option" where
  "splitService_loop s parts start i =
     (if i < int (length s) then
        do {
          c \<leftarrow> go_index s i;
          if c = CHR ''.'' then
            do {
              parts' \<leftarrow> (if i > start
                          then do { p \<leftarrow> go_slice s start i; Some (parts @ [p]) }
                          else Some parts);
              splitService_loop s parts' (i + 1) (i + 1)
            }
          else splitService_loop s parts start (i + 1)
        }
      else if start < int (length s) then
        do { p \<leftarrow> go_slice s start (int (length s)); Some (parts @ [p]) }
      else Some parts)"
  by pat_completeness auto
termination
  by (relation "measure (\<lambda>(s, parts, start, i). nat (int (length s) - i))") auto

definition splitService :: "string \<Rightarrow> string list option" where
  "splitService s = splitService_loop s [] 0 0"

definition extractMethodName :: "string \<Rightarrow> string option" where
  "extractMethodName fullMethod =
     (if length fullMethod > 0 then
        do {
          c \<leftarrow> go_index fullMethod 0;
          if c = CHR ''/'' then
            do {
              rest \<leftarrow> go_slice fullMethod 1 (int (length fullMethod));
              parts \<leftarrow> splitMethod rest;
              if length parts = 2 then
                do {
                  servicePath \<leftarrow> go_index parts 0;
                  serviceParts \<leftarrow> splitService servicePath;
                  if length serviceParts \<ge> 2 then go_index parts 1 else Some ''unknown''
                }
              else Some ''unknown''
            }
          else Some ''unknown''
        }
      else Some ''unknown'')"

section \<open>Metrics recorder\<close>

record CalculationResult =
  Type :: string
  Duration :: duration
  Success :: bool
  ErrorType :: string
  Weight :: float64
  Hydration :: float64
  Accuracy :: float64
  IngredientsUsed :: "string list"

text \<open>\<open>for _, ingredient := range ...\<close>, one call per element of the slice.\<close>

fun validate_ingredients :: "string list \<Rightarrow> event list" where
  "validate_ingredients [] = []"
| "validate_ingredients (ingredient # rest) =
     IncrementIngredientValidations ingredient True # validate_ingredients rest"

definition RecordCalculation :: "CalculationResult \<Rightarrow> event list" where
  "RecordCalculation result =
     [IncrementCalculationsTotal (Type result),
      RecordCalculationDuration (Type result) (Duration result)] @
     (if \<not> Success result then
        [IncrementCalculationErrors (Type result) (ErrorType result)]
      else
        (if gt_zero (Weight result) then [RecordDoughWeight (Weight result)] else []) @
        (if gt_zero (Hydration result) then [RecordDoughHydration (Hydration result)] else []) @
        (if gt_zero (Accuracy result) then [RecordDoughAccuracy (Accuracy result)] else []) @
        validate_ingredients (IngredientsUsed result))"

section \<open>Interceptor\<close>

record BusinessMetrics =
  bm_Weight :: float64
  bm_Hydration :: float64
  bm_Accuracy :: float64
  bm_Ingredients :: "string list"
  bm_RecipeType :: string

definition getCurrentActiveCalculations :: int where
  "getCurrentActiveCalculations = 0"

definition extractBusinessMetrics :: "'resp \<Rightarrow> BusinessMetrics option" where
  "extractBusinessMetrics resp = None"

definition recordBusinessMetrics :: "BusinessMetrics \<Rightarrow> event list" where
  "recordBusinessMetrics business =
     (if gt_zero (bm_Weight business) then [RecordDoughWeight (bm_Weight business)] else []) @
     (if gt_zero (bm_Hydration business) then [RecordDoughHydration (bm_Hydration business)] else []) @
     (if gt_zero (bm_Accuracy business) then [RecordDoughAccuracy (bm_Accuracy business)] else []) @
     (if bm_RecipeType business \<noteq> [] then [IncrementRecipeTypes (bm_RecipeType business)] else []) @
     validate_ingredients (bm_Ingredients business)"

text \<open>
  What one invocation of the wrapped handler does: it returns a response and an error
  (nil is \<open>None\<close>), or it panics. The interceptor has no \<open>defer\<close> and no \<open>recover\<close>,
  so a panic of the handler unwinds through it and nothing after the call runs.
\<close>

datatype 'resp outcome = Returns 'resp "error option" | Panics

text \<open>
  One call through the interceptor. \<open>elapsed\<close> is what \<open>time.Since(start)\<close> reads after
  the handler has returned. The result is the sequence of sink calls made and what the
  caller of the interceptor gets. \<open>extractMethodName\<close> is called twice on the same
  string; it has no effect, so one binding stands for both calls.
\<close>

definition UnaryServerInterceptor ::
  "duration \<Rightarrow> 'ctx \<Rightarrow> 'req \<Rightarrow> string \<Rightarrow> ('ctx \<Rightarrow> 'req \<Rightarrow> 'resp outcome)
     \<Rightarrow> event list \<times> 'resp outcome" where
  "UnaryServerInterceptor elapsed ctx req fullMethod handler =
     (let before =
        (if isCalculationMethod fullMethod
         then [SetActiveCalculations (getCurrentActiveCalculations + 1)] else [])
      in
        case handler ctx req of
          Panics \<Rightarrow> (before, Panics)
        | Returns resp err \<Rightarrow>
            (let statusCode = getStatusCode err in
               case extractMethodName fullMethod of
                 None \<Rightarrow> (before, Panics)
               | Some name \<Rightarrow>
                   (let technical =
                      [IncrementGRPCRequests name statusCode, RecordGRPCDuration name elapsed];
                        business =
                      (if isCalculationMethod fullMethod then
                         SetActiveCalculations (getCurrentActiveCalculations - 1) #
                         (let calculationType = getCalculationType fullMethod in
                            if err \<noteq> None then
                              [IncrementCalculationErrors calculationType (getErrorType err)]
                            else
                              [IncrementCalculationsTotal calculationType,
                               RecordCalculationDuration calculationType elapsed] @
                              (case extractBusinessMetrics resp of
                                 None \<Rightarrow> []
                               | Some businessMetrics \<Rightarrow> recordBusinessMetrics businessMetrics))
                       else [])
                    in (before @ technical @ business, Returns resp err))))"

section \<open>Reference notions for method addresses\<close>

text \<open>
  The conventional shape of an address is \<open>/<package>.<Service>/<MethodName>\<close>. The
  following definitions are not translations of the code: they say, independently of the
  loops above, what the parts of an address are. The service path is what stands between
  the leading slash and the last slash, the method segment is what follows the last
  slash, and the segments of a service path are the non-empty pieces between its dots
  (a path without a dot has at most one).
\<close>

fun dot_fields :: "string \<Rightarrow> string list" where
  "dot_fields [] = [[]]"
| "dot_fields (c # cs) =
     (if c = CHR ''.'' then [] # dot_fields cs
      else (case dot_fields cs of [] \<Rightarrow> [[c]] | p # ps \<Rightarrow> (c # p) # ps))"

definition segments :: "string \<Rightarrow> string list" where
  "segments s = filter (\<lambda>p. p \<noteq> []) (dot_fields s)"

definition service_path :: "string \<Rightarrow> string" where
  "service_path fullMethod = rev (tl (dropWhile (\<lambda>c. c \<noteq> CHR ''/'') (rev (tl fullMethod))))"

definition method_segment :: "string \<Rightarrow> string" where
  "method_segment fullMethod = rev (takeWhile (\<lambda>c. c \<noteq> CHR ''/'') (rev (tl fullMethod)))"

text \<open>
  An address is malformed when it is empty, does not start with a slash, has no slash
  after the first one, or has a service path with fewer than two segments.
\<close>

definition malformed :: "string \<Rightarrow> bool" where
  "malformed fullMethod \<longleftrightarrow>
     fullMethod = [] \<or> hd fullMethod \<noteq> CHR ''/'' \<or> CHR ''/'' \<notin> set (tl fullMethod) \<or>
     length (segments (service_path fullMethod)) < 2"

section \<open>Observations on a run\<close>

text \<open>Which counter or histogram a sink call belongs to.\<close>

fun is_calculations_total :: "event \<Rightarrow> bool" where
  "is_calculations_total (IncrementCalculationsTotal t) = True"
| "is_calculations_total e = False"

fun is_calculation_duration :: "event \<Rightarrow> bool" where
  "is_calculation_duration (RecordCalculationDuration t d) = True"
| "is_calculation_duration e = False"

fun is_calculation_error :: "event \<Rightarrow> bool" where
  "is_calculation_error (IncrementCalculationErrors t k) = True"
| "is_calculation_error e = False"

section \<open>Handlers and results of the test suite\<close>

text \<open>
  The handlers of the interceptor tests (called with \<open>context.Background()\<close> and the
  request \<open>"test request"\<close>): one that answers \<open>"success response"\<close>, one that fails
  with \<open>status.Error(codes.InvalidArgument, "invalid input")\<close> and a nil response, one
  that answers \<open>"health ok"\<close>. A fourth handler panics.
\<close>

definition success_handler :: "unit \<Rightarrow> string \<Rightarrow> string option outcome" where
  "success_handler ctx req = Returns (Some ''success response'') None"

definition error_handler :: "unit \<Rightarrow> string \<Rightarrow> string option outcome" where
  "error_handler ctx req = Returns None (Some (StatusError InvalidArgument ''invalid input''))"

definition health_handler :: "unit \<Rightarrow> string \<Rightarrow> string option outcome" where
  "health_handler ctx req = Returns (Some ''health ok'') None"

definition panicking_handler :: "unit \<Rightarrow> string \<Rightarrow> string option outcome" where
  "panicking_handler ctx req = Panics"

text \<open>
  Two results handed to the recorder: a failed calculation whose quality fields carry
  values all the same, and the successful calculation with partial data of the recorder
  tests (durations of 50 ms and 25 ms, in nanoseconds).
\<close>

definition failed_result :: CalculationResult where
  "failed_result =
     \<lparr>Type = ''dough_calculation'', Duration = 50000000, Success = False,
      ErrorType = ''invalid_ingredients'', Weight = Finite 500, Hydration = Finite 70,
      Accuracy = Finite 95.5, IngredientsUsed = [''flour'', ''water'', ''salt'']\<rparr>"

definition partial_result :: CalculationResult where
  "partial_result =
     \<lparr>Type = ''quick_calculation'', Duration = 25000000, Success = True,
      ErrorType = [], Weight = Finite 0, Hydration = Finite 65,
      Accuracy = Finite 0, IngredientsUsed = [''flour'']\<rparr>"

section \<open>Address parsing is total\<close>

declare splitMethod_loop.simps [simp del] splitService_loop.simps [simp del]

lemma go_index_Some: "0 \<le> i \<Longrightarrow> i < int (length s) \<Longrightarrow> go_index s i = Some (s ! nat i)"
  by (simp add: go_index_def)

lemma go_slice_Some:
  "0 \<le> lo \<Longrightarrow> lo \<le> hi \<Longrightarrow> hi \<le> int (length s) \<Longrightarrow>
   go_slice s lo hi = Some (take (nat (hi - lo)) (drop (nat lo) s))"
  by (simp add: go_slice_def)

lemma splitMethod_loop_no_slash:
  "CHR ''/'' \<notin> set s \<Longrightarrow> i < int (length s) \<Longrightarrow> splitMethod_loop s i = Some [s]"
proof (induction s i rule: splitMethod_loop.induct)
  case (1 s i)
  show ?case
  proof (cases "0 \<le> i")
    case False
    then show ?thesis by (simp add: splitMethod_loop.simps [of s i])
  next
    case True
    with "1.prems" have idx: "go_index s i = Some (s ! nat i)"
      by (simp add: go_index_Some)
    from True "1.prems" have "s ! nat i \<in> set s" by simp
    with "1.prems" have ne: "s ! nat i \<noteq> CHR ''/''" by metis
    from "1.IH" [OF True idx ne] "1.prems" have "splitMethod_loop s (i - 1) = Some [s]"
      by simp
    with True idx ne show ?thesis by (simp add: splitMethod_loop.simps [of s i])
  qed
qed

lemma splitMethod_loop_last_slash:
  "s = a @ CHR ''/'' # b \<Longrightarrow> CHR ''/'' \<notin> set b \<Longrightarrow> int (length a) \<le> i \<Longrightarrow>
   i < int (length s) \<Longrightarrow> splitMethod_loop s i = Some [a, b]"
proof (induction s i rule: splitMethod_loop.induct)
  case (1 s i)
  from "1.prems" have nonneg: "0 \<le> i" by simp
  with "1.prems" have idx: "go_index s i = Some (s ! nat i)"
    by (simp add: go_index_Some)
  show ?case
  proof (cases "i = int (length a)")
    case True
    with "1.prems" have c: "s ! nat i = CHR ''/''" by simp
    from True "1.prems" have l: "go_slice s 0 i = Some a"
      by (simp add: go_slice_def)
    from True "1.prems" have r: "go_slice s (i + 1) (int (length s)) = Some b"
      by (simp add: go_slice_def nat_add_distrib)
    from nonneg idx c l r show ?thesis by (simp add: splitMethod_loop.simps [of s i])
  next
    case False
    with "1.prems" have gt: "int (length a) < i" by simp
    define n where "n = nat i - length a - 1"
    from gt have i: "nat i = length a + Suc n" by (simp add: n_def)
    from gt "1.prems" have n: "n < length b" by (simp add: n_def)
    from "1.prems" have "s ! nat i = b ! n"
      unfolding i by (simp add: nth_append)
    with n have "s ! nat i \<in> set b" by simp
    with "1.prems" have ne: "s ! nat i \<noteq> CHR ''/''" by metis
    from "1.IH" [OF nonneg idx ne] "1.prems" gt have "splitMethod_loop s (i - 1) = Some [a, b]"
      by simp
    with nonneg idx ne show ?thesis by (simp add: splitMethod_loop.simps [of s i])
  qed
qed

lemma splitMethod_no_slash: "CHR ''/'' \<notin> set s \<Longrightarrow> splitMethod s = Some [s]"
  by (simp add: splitMethod_def splitMethod_loop_no_slash)

lemma splitMethod_last_slash:
  "CHR ''/'' \<notin> set b \<Longrightarrow> splitMethod (a @ CHR ''/'' # b) = Some [a, b]"
  by (simp add: splitMethod_def splitMethod_loop_last_slash [where a = a and b = b])

lemma dot_fields_not_Nil: "dot_fields s \<noteq> []"
  by (induction s) (auto split: list.splits)

lemma dot_fields_no_dot: "CHR ''.'' \<notin> set p \<Longrightarrow> dot_fields p = [p]"
  by (induction p) auto

lemma dot_fields_first_dot:
  "CHR ''.'' \<notin> set p \<Longrightarrow> dot_fields (p @ CHR ''.'' # r) = p # dot_fields r"
  by (induction p) auto

lemma segments_no_dot: "CHR ''.'' \<notin> set p \<Longrightarrow> segments p = (if p = [] then [] else [p])"
  by (simp add: segments_def dot_fields_no_dot)

lemma segments_first_dot:
  "CHR ''.'' \<notin> set p \<Longrightarrow>
   segments (p @ CHR ''.'' # r) = (if p = [] then [] else [p]) @ segments r"
  by (simp add: segments_def dot_fields_first_dot)

lemma splitService_loop_segments:
  "0 \<le> start \<Longrightarrow> start \<le> i \<Longrightarrow> i \<le> int (length s) \<Longrightarrow>
   CHR ''.'' \<notin> set (take (nat (i - start)) (drop (nat start) s)) \<Longrightarrow>
   splitService_loop s parts start i = Some (parts @ segments (drop (nat start) s))"
proof (induction s parts start i rule: splitService_loop.induct)
  case (1 s parts start i)
  let ?p = "take (nat (i - start)) (drop (nat start) s)"
  show ?case
  proof (cases "i < int (length s)")
    case False
    with "1.prems" have nodot: "CHR ''.'' \<notin> set (drop (nat start) s)" by simp
    show ?thesis
    proof (cases "start < int (length s)")
      case True
      with "1.prems" have sl: "go_slice s start (int (length s)) = Some (drop (nat start) s)"
        by (simp add: go_slice_def)
      from True "1.prems" have ne: "drop (nat start) s \<noteq> []" by simp
      have "splitService_loop s parts start i = Some (parts @ [drop (nat start) s])"
        using False True sl by (subst splitService_loop.simps) simp
      with ne nodot show ?thesis by (simp add: segments_no_dot)
    next
      case ge: False
      with "1.prems" have e: "drop (nat start) s = []" by simp
      have "splitService_loop s parts start i = Some parts"
        using False ge by (subst splitService_loop.simps) simp
      with e show ?thesis by (simp add: segments_no_dot)
    qed
  next
    case True
    with "1.prems" have idx: "go_index s i = Some (s ! nat i)"
      by (simp add: go_index_Some)
    from True "1.prems" have split: "drop (nat start) s = ?p @ s ! nat i # drop (Suc (nat i)) s"
    proof -
      from True "1.prems" have "nat i = nat start + nat (i - start)" by simp
      moreover from True "1.prems" have "nat (i - start) < length (drop (nat start) s)" by simp
      then have "drop (nat start) s =
          ?p @ drop (nat start) s ! nat (i - start) # drop (Suc (nat (i - start))) (drop (nat start) s)"
        by (rule id_take_nth_drop)
      ultimately show ?thesis using True "1.prems" by (simp add: add.commute)
    qed
    show ?thesis
    proof (cases "s ! nat i = CHR ''.''")
      case dot: True
      have seg: "segments (drop (nat start) s) =
          (if ?p = [] then [] else [?p]) @ segments (drop (Suc (nat i)) s)"
        using split dot "1.prems"(4) segments_first_dot [of ?p "drop (Suc (nat i)) s"] by simp
      have nxt: "nat (i + 1) = Suc (nat i)" using True "1.prems" by simp
      show ?thesis
      proof (cases "start < i")
        case lt: True
        with True "1.prems" have sl: "go_slice s start i = Some ?p"
          by (simp add: go_slice_def)
        have pa: "(if start < i then do { p \<leftarrow> go_slice s start i; Some (parts @ [p]) } else Some parts)
            = Some (parts @ [?p])"
          using lt sl by simp
        from lt True "1.prems" have "?p \<noteq> []" by simp
        moreover have "splitService_loop s (parts @ [?p]) (i + 1) (i + 1) =
            Some ((parts @ [?p]) @ segments (drop (nat (i + 1)) s))"
          using "1.IH"(1) [OF True idx dot pa] True "1.prems" by simp
        ultimately show ?thesis
          using True idx dot sl lt seg nxt
          by (simp add: splitService_loop.simps [of s parts start i])
      next
        case ge: False
        have pa: "(if start < i then do { p \<leftarrow> go_slice s start i; Some (parts @ [p]) } else Some parts)
            = Some parts"
          using ge by simp
        from ge "1.prems" have "?p = []" by simp
        moreover have "splitService_loop s parts (i + 1) (i + 1) =
            Some (parts @ segments (drop (nat (i + 1)) s))"
          using "1.IH"(1) [OF True idx dot pa] True "1.prems" by simp
        ultimately show ?thesis
          using True idx dot ge seg nxt
          by (simp add: splitService_loop.simps [of s parts start i])
      qed
    next
      case nodot: False
      have "take (nat (i + 1 - start)) (drop (nat start) s) = ?p @ [s ! nat i]"
      proof -
        from True "1.prems" have "nat (i + 1 - start) = Suc (nat (i - start))" by simp
        moreover from True "1.prems" have "nat (i - start) < length (drop (nat start) s)" by simp
        moreover from True "1.prems" have "drop (nat start) s ! nat (i - start) = s ! nat i"
          by (simp add: nat_add_distrib [symmetric])
        ultimately show ?thesis by (simp add: take_Suc_conv_app_nth)
      qed
      with nodot "1.prems" have
        "CHR ''.'' \<notin> set (take (nat (i + 1 - start)) (drop (nat start) s))" by simp
      with "1.IH"(2) [OF True idx nodot] True "1.prems" have
        "splitService_loop s parts start (i + 1) = Some (parts @ segments (drop (nat start) s))"
        by simp
      with True idx nodot show ?thesis
        by (simp add: splitService_loop.simps [of s parts start i])
    qed
  qed
qed

lemma splitService_segments: "splitService s = Some (segments s)"
  using splitService_loop_segments [of 0 0 s "[]"] by (simp add: splitService_def)

lemma extractMethodName_Nil: "extractMethodName [] = Some ''unknown''"
  by (simp add: extractMethodName_def)

lemma extractMethodName_no_leading_slash:
  "c \<noteq> CHR ''/'' \<Longrightarrow> extractMethodName (c # r) = Some ''unknown''"
  by (simp add: extractMethodName_def go_index_def)

lemma extractMethodName_no_second_slash:
  "CHR ''/'' \<notin> set r \<Longrightarrow> extractMethodName (CHR ''/'' # r) = Some ''unknown''"
  by (simp add: extractMethodName_def go_index_def go_slice_def splitMethod_no_slash)

lemma extractMethodName_two_slashes:
  "CHR ''/'' \<notin> set b \<Longrightarrow>
   extractMethodName (CHR ''/'' # a @ CHR ''/'' # b) =
     Some (if 2 \<le> length (segments a) then b else ''unknown'')"
  by (simp add: extractMethodName_def go_index_def go_slice_def splitMethod_last_slash
      splitService_segments)

lemma service_path_two_slashes:
  "CHR ''/'' \<notin> set b \<Longrightarrow> service_path (CHR ''/'' # a @ CHR ''/'' # b) = a"
proof -
  assume "CHR ''/'' \<notin> set b"
  then have "dropWhile (\<lambda>c. c \<noteq> CHR ''/'') (rev b @ CHR ''/'' # rev a) = CHR ''/'' # rev a"
    by (subst dropWhile_append2) auto
  then show ?thesis by (simp add: service_path_def)
qed

lemma method_segment_two_slashes:
  "CHR ''/'' \<notin> set b \<Longrightarrow> method_segment (CHR ''/'' # a @ CHR ''/'' # b) = b"
proof -
  assume "CHR ''/'' \<notin> set b"
  then have "takeWhile (\<lambda>c. c \<noteq> CHR ''/'') (rev b @ CHR ''/'' # rev a) = rev b"
    by (subst takeWhile_append2) auto
  then show ?thesis by (simp add: method_segment_def)
qed

lemma extractMethodName_char:
  "extractMethodName m = Some (if malformed m then ''unknown'' else method_segment m)"
proof (cases m)
  case Nil
  then show ?thesis by (simp add: extractMethodName_Nil malformed_def)
next
  case (Cons c r)
  show ?thesis
  proof (cases "c = CHR ''/''")
    case False
    with Cons show ?thesis by (simp add: extractMethodName_no_leading_slash malformed_def)
  next
    case True
    show ?thesis
    proof (cases "CHR ''/'' \<in> set r")
      case False
      with Cons True show ?thesis by (simp add: extractMethodName_no_second_slash malformed_def)
    next
      case slash: True
      then obtain a b where r: "r = a @ CHR ''/'' # b" and b: "CHR ''/'' \<notin> set b"
        by (auto dest: split_list_last)
      from Cons True r b have "malformed m \<longleftrightarrow> length (segments a) < 2"
        by (simp add: malformed_def service_path_two_slashes)
      with Cons True r b show ?thesis
        by (auto simp add: extractMethodName_two_slashes method_segment_two_slashes)
    qed
  qed
qed

lemma extractMethodName_total: "\<exists>name. extractMethodName m = Some name"
  by (simp add: extractMethodName_char)

text \<open>
  C8: parsing a method address never panics, whatever the string: \<open>extractMethodName\<close>
  always returns a name. Every malformed address (the empty string, a string without a
  leading slash, one with no further slash, one whose service path has fewer than two
  dot-separated segments) is answered with the sentinel \<open>unknown\<close>.
\<close>

theorem extractMethodName_total_unknown:
  "(\<exists>name. extractMethodName m = Some name) \<and>
   (malformed m \<longrightarrow> extractMethodName m = Some ''unknown'')"
  by (simp add: extractMethodName_char)

lemma malformed_examples:
  "malformed []" "malformed ''InvalidMethod''" "malformed ''/Method''" "malformed ''/Service/Method''"
  "malformed ''/a./M''" "\<not> malformed ''/a.b/''"
  by (simp_all add: malformed_def service_path_def segments_def)

theorem extractMethodName_total_unknown_witness:
  "malformed [] \<and> extractMethodName [] = Some ''unknown'' \<and>
   malformed ''InvalidMethod'' \<and> extractMethodName ''InvalidMethod'' = Some ''unknown'' \<and>
   malformed ''/Method'' \<and> extractMethodName ''/Method'' = Some ''unknown'' \<and>
   malformed ''/Service/Method'' \<and> extractMethodName ''/Service/Method'' = Some ''unknown''"
  using extractMethodName_total_unknown [of "[]"]
    extractMethodName_total_unknown [of "''InvalidMethod''"]
    extractMethodName_total_unknown [of "''/Method''"]
    extractMethodName_total_unknown [of "''/Service/Method''"]
    malformed_examples
  by simp

section \<open>Properties of the method classifier\<close>

lemma isCalculationMethod_iff:
  "isCalculationMethod m \<longleftrightarrow>
     m = ''/calculator.CalculatorService/CalculateDough'' \<or>
     m = ''/calculator.CalculatorService/CalculateIngredients'' \<or>
     m = ''/calculator.CalculatorService/OptimizeRecipe''"
  by (simp add: isCalculationMethod_def calculationMethods_def)

lemma business_addresses_wellformed:
  "\<not> malformed ''/calculator.CalculatorService/CalculateDough''"
  "\<not> malformed ''/calculator.CalculatorService/CalculateIngredients''"
  "\<not> malformed ''/calculator.CalculatorService/OptimizeRecipe''"
  by (simp_all add: malformed_def service_path_def segments_def)

text \<open>
  C6: a method address is classified as business exactly when it is one of the three
  registered addresses. \<open>getCalculationType\<close> sends these three to
  \<open>dough_calculation\<close>, \<open>ingredient_calculation\<close> and \<open>recipe_optimization\<close>, and
  every other address, the malformed ones among them, to \<open>unknown_calculation\<close>.
\<close>

theorem classification_exact:
  "(isCalculationMethod m \<longleftrightarrow>
      m \<in> {''/calculator.CalculatorService/CalculateDough'',
           ''/calculator.CalculatorService/CalculateIngredients'',
           ''/calculator.CalculatorService/OptimizeRecipe''}) \<and>
   getCalculationType ''/calculator.CalculatorService/CalculateDough'' = ''dough_calculation'' \<and>
   getCalculationType ''/calculator.CalculatorService/CalculateIngredients'' =
     ''ingredient_calculation'' \<and>
   getCalculationType ''/calculator.CalculatorService/OptimizeRecipe'' = ''recipe_optimization'' \<and>
   (m \<notin> {''/calculator.CalculatorService/CalculateDough'',
           ''/calculator.CalculatorService/CalculateIngredients'',
           ''/calculator.CalculatorService/OptimizeRecipe''} \<longrightarrow>
      getCalculationType m = ''unknown_calculation'') \<and>
   (malformed m \<longrightarrow> \<not> isCalculationMethod m \<and> getCalculationType m = ''unknown_calculation'')"
proof (intro conjI impI)
  show "isCalculationMethod m \<longleftrightarrow>
      m \<in> {''/calculator.CalculatorService/CalculateDough'',
           ''/calculator.CalculatorService/CalculateIngredients'',
           ''/calculator.CalculatorService/OptimizeRecipe''}"
    by (simp add: isCalculationMethod_iff)
  show "getCalculationType ''/calculator.CalculatorService/CalculateDough'' = ''dough_calculation''"
    by (simp add: getCalculationType_def)
  show "getCalculationType ''/calculator.CalculatorService/CalculateIngredients'' =
      ''ingredient_calculation''"
    by (simp add: getCalculationType_def)
  show "getCalculationType ''/calculator.CalculatorService/OptimizeRecipe'' = ''recipe_optimization''"
    by (simp add: getCalculationType_def)
  show "getCalculationType m = ''unknown_calculation''"
    if "m \<notin> {''/calculator.CalculatorService/CalculateDough'',
            ''/calculator.CalculatorService/CalculateIngredients'',
            ''/calculator.CalculatorService/OptimizeRecipe''}"
    using that by (simp add: getCalculationType_def)
  assume mal: "malformed m"
  have "m \<noteq> ''/calculator.CalculatorService/CalculateDough''"
    "m \<noteq> ''/calculator.CalculatorService/CalculateIngredients''"
    "m \<noteq> ''/calculator.CalculatorService/OptimizeRecipe''"
    using mal business_addresses_wellformed by blast+
  then show "\<not> isCalculationMethod m" "getCalculationType m = ''unknown_calculation''"
    by (simp_all add: isCalculationMethod_iff getCalculationType_def)
qed

theorem classification_exact_witness:
  "''/calculator.CalculatorService/UnknownMethod'' \<notin>
      {''/calculator.CalculatorService/CalculateDough'',
       ''/calculator.CalculatorService/CalculateIngredients'',
       ''/calculator.CalculatorService/OptimizeRecipe''} \<and>
   \<not> isCalculationMethod ''/calculator.CalculatorService/UnknownMethod'' \<and>
   getCalculationType ''/calculator.CalculatorService/UnknownMethod'' = ''unknown_calculation'' \<and>
   \<not> isCalculationMethod ''/other.Service/CalculateDough'' \<and>
   getCalculationType ''/other.Service/CalculateDough'' = ''unknown_calculation'' \<and>
   malformed ''InvalidMethod'' \<and>
   \<not> isCalculationMethod ''InvalidMethod'' \<and>
   getCalculationType ''InvalidMethod'' = ''unknown_calculation''"
  using classification_exact [of "''/calculator.CalculatorService/UnknownMethod''"]
    classification_exact [of "''/other.Service/CalculateDough''"]
    classification_exact [of "''InvalidMethod''"]
    malformed_examples(2)
  by simp

section \<open>Properties of the error taxonomy\<close>

lemma getStatusCode_range:
  "getStatusCode err \<in>
     {''success'', ''invalid_argument'', ''not_found'', ''internal_error'', ''unavailable'', ''error''}"
proof (cases err)
  case None
  then show ?thesis by (simp add: getStatusCode_def)
next
  case (Some e)
  show ?thesis
  proof (cases e)
    case (StatusError c msg)
    with Some show ?thesis by (cases c) (simp_all add: getStatusCode_def)
  next
    case (PlainError msg)
    with Some show ?thesis by (simp add: getStatusCode_def)
  qed
qed

lemma getStatusCode_unrecognized:
  "c \<notin> {OK, InvalidArgument, NotFound, Internal, Unavailable} \<Longrightarrow>
   getStatusCode (Some (StatusError c msg)) = ''error''"
  by (cases c) (simp_all add: getStatusCode_def)

lemma getErrorType_timeout_iff:
  "getErrorType err = ''timeout'' \<longleftrightarrow> (\<exists>msg. err = Some (StatusError DeadlineExceeded msg))"
proof (cases err)
  case None
  then show ?thesis by (simp add: getErrorType_def)
next
  case (Some e)
  show ?thesis
  proof (cases e)
    case (StatusError c msg)
    with Some show ?thesis by (cases c) (simp_all add: getErrorType_def)
  next
    case (PlainError msg)
    with Some show ?thesis by (simp add: getErrorType_def)
  qed
qed

lemma domain_label_not_from_technical:
  "\<not> (\<exists>f. \<forall>err. getErrorType err = f (getStatusCode err))"
proof
  assume "\<exists>f. \<forall>err. getErrorType err = f (getStatusCode err)"
  then obtain f where f: "\<And>err. getErrorType err = f (getStatusCode err)" by blast
  have "getStatusCode (Some (StatusError DeadlineExceeded [])) = getStatusCode (Some (PlainError []))"
    by (simp add: getStatusCode_def)
  with f [of "Some (StatusError DeadlineExceeded [])"] f [of "Some (PlainError [])"]
  have "getErrorType (Some (StatusError DeadlineExceeded [])) = getErrorType (Some (PlainError []))"
    by simp
  then show False by (simp add: getErrorType_def)
qed

lemma technical_label_not_from_domain:
  "\<not> (\<exists>g. \<forall>err. getStatusCode err = g (getErrorType err))"
proof
  assume "\<exists>g. \<forall>err. getStatusCode err = g (getErrorType err)"
  then obtain g where g: "\<And>err. getStatusCode err = g (getErrorType err)" by blast
  have "getErrorType (Some (StatusError Canceled [])) = getErrorType (Some (PlainError []))"
    by (simp add: getErrorType_def)
  moreover have "getErrorType (Some (PlainError [])) = getErrorType None"
    by (simp add: getErrorType_def)
  ultimately have "getStatusCode (Some (PlainError [])) = getStatusCode None"
    using g [of "Some (PlainError [])"] g [of None] by simp
  then show False by (simp add: getStatusCode_def)
qed

lemma getErrorType_range:
  "getErrorType err \<in>
     {''unknown_error'', ''invalid_input'', ''recipe_not_found'', ''calculation_error'',
      ''service_unavailable'', ''timeout''}"
proof (cases err)
  case None
  then show ?thesis by (simp add: getErrorType_def)
next
  case (Some e)
  show ?thesis
  proof (cases e)
    case (StatusError c msg)
    with Some show ?thesis by (cases c) (simp_all add: getErrorType_def)
  next
    case (PlainError msg)
    with Some show ?thesis by (simp add: getErrorType_def)
  qed
qed

lemma getErrorType_unrecognized:
  "c \<notin> {InvalidArgument, NotFound, Internal, Unavailable, DeadlineExceeded} \<Longrightarrow>
   getErrorType (Some (StatusError c msg)) = ''unknown_error''"
  by (cases c) (simp_all add: getErrorType_def)

lemma getStatusCode_recognized:
  "getStatusCode None = ''success''"
  "getStatusCode (Some (StatusError OK msg)) = ''success''"
  "getStatusCode (Some (StatusError InvalidArgument msg)) = ''invalid_argument''"
  "getStatusCode (Some (StatusError NotFound msg)) = ''not_found''"
  "getStatusCode (Some (StatusError Internal msg)) = ''internal_error''"
  "getStatusCode (Some (StatusError Unavailable msg)) = ''unavailable''"
  by (simp_all add: getStatusCode_def)

lemma getErrorType_recognized:
  "getErrorType (Some (StatusError InvalidArgument msg)) = ''invalid_input''"
  "getErrorType (Some (StatusError NotFound msg)) = ''recipe_not_found''"
  "getErrorType (Some (StatusError Internal msg)) = ''calculation_error''"
  "getErrorType (Some (StatusError Unavailable msg)) = ''service_unavailable''"
  "getErrorType (Some (StatusError DeadlineExceeded msg)) = ''timeout''"
  "getErrorType None = ''unknown_error''"
  by (simp_all add: getErrorType_def)

text \<open>
  C7: the technical label is \<open>success\<close> for no error (and for a status of code
  \<open>OK\<close>), \<open>invalid_argument\<close>, \<open>not_found\<close>, \<open>internal_error\<close> and \<open>unavailable\<close> for
  the statuses \<open>InvalidArgument\<close>, \<open>NotFound\<close>, \<open>Internal\<close> and \<open>Unavailable\<close>, and the
  catch-all \<open>error\<close> for an error without a status and for a status with any other
  code, \<open>DeadlineExceeded\<close> included; it is never anything else. The domain label is
  \<open>invalid_input\<close>, \<open>recipe_not_found\<close>, \<open>calculation_error\<close> and
  \<open>service_unavailable\<close> for the same four statuses, \<open>timeout\<close> for
  \<open>DeadlineExceeded\<close> and for nothing else, and \<open>unknown_error\<close> for an error without a
  status and for every other code; it is never anything else. The two labellings are not
  isomorphic: neither label is a function of the other.
\<close>

theorem error_taxonomies_differ:
  "getStatusCode err \<in>
     {''success'', ''invalid_argument'', ''not_found'', ''internal_error'', ''unavailable'', ''error''} \<and>
   getStatusCode (Some (PlainError msg)) = ''error'' \<and>
   (c \<notin> {OK, InvalidArgument, NotFound, Internal, Unavailable} \<longrightarrow>
      getStatusCode (Some (StatusError c msg)) = ''error'') \<and>
   getStatusCode (Some (StatusError DeadlineExceeded msg)) = ''error'' \<and>
   (getErrorType err = ''timeout'' \<longleftrightarrow> (\<exists>msg'. err = Some (StatusError DeadlineExceeded msg'))) \<and>
   getErrorType (Some (PlainError msg)) = ''unknown_error'' \<and>
   \<not> (\<exists>f. \<forall>err'. getErrorType err' = f (getStatusCode err')) \<and>
   \<not> (\<exists>g. \<forall>err'. getStatusCode err' = g (getErrorType err')) \<and>
   getStatusCode None = ''success'' \<and>
   getStatusCode (Some (StatusError OK msg)) = ''success'' \<and>
   getStatusCode (Some (StatusError InvalidArgument msg)) = ''invalid_argument'' \<and>
   getStatusCode (Some (StatusError NotFound msg)) = ''not_found'' \<and>
   getStatusCode (Some (StatusError Internal msg)) = ''internal_error'' \<and>
   getStatusCode (Some (StatusError Unavailable msg)) = ''unavailable'' \<and>
   getErrorType err \<in>
     {''unknown_error'', ''invalid_input'', ''recipe_not_found'', ''calculation_error'',
      ''service_unavailable'', ''timeout''} \<and>
   getErrorType (Some (StatusError InvalidArgument msg)) = ''invalid_input'' \<and>
   getErrorType (Some (StatusError NotFound msg)) = ''recipe_not_found'' \<and>
   getErrorType (Some (StatusError Internal msg)) = ''calculation_error'' \<and>
   getErrorType (Some (StatusError Unavailable msg)) = ''service_unavailable'' \<and>
   getErrorType (Some (StatusError DeadlineExceeded msg)) = ''timeout'' \<and>
   (c \<notin> {InvalidArgument, NotFound, Internal, Unavailable, DeadlineExceeded} \<longrightarrow>
      getErrorType (Some (StatusError c msg)) = ''unknown_error'') \<and>
   getErrorType None = ''unknown_error''"
proof (intro conjI impI)
  show "getStatusCode err \<in>
     {''success'', ''invalid_argument'', ''not_found'', ''internal_error'', ''unavailable'', ''error''}"
    by (rule getStatusCode_range)
  show "getErrorType err \<in>
     {''unknown_error'', ''invalid_input'', ''recipe_not_found'', ''calculation_error'',
      ''service_unavailable'', ''timeout''}"
    by (rule getErrorType_range)
  show "getErrorType err = ''timeout'' \<longleftrightarrow> (\<exists>msg'. err = Some (StatusError DeadlineExceeded msg'))"
    by (rule getErrorType_timeout_iff)
  show "\<not> (\<exists>f. \<forall>err'. getErrorType err' = f (getStatusCode err'))"
    by (rule domain_label_not_from_technical)
  show "\<not> (\<exists>g. \<forall>err'. getStatusCode err' = g (getErrorType err'))"
    by (rule technical_label_not_from_domain)
  show "getStatusCode (Some (StatusError c msg)) = ''error''"
    if "c \<notin> {OK, InvalidArgument, NotFound, Internal, Unavailable}"
    using that by (rule getStatusCode_unrecognized)
  show "getErrorType (Some (StatusError c msg)) = ''unknown_error''"
    if "c \<notin> {InvalidArgument, NotFound, Internal, Unavailable, DeadlineExceeded}"
    using that by (rule getErrorType_unrecognized)
qed (simp_all add: getStatusCode_recognized getErrorType_recognized getStatusCode_def
    getErrorType_def)

theorem error_taxonomies_differ_witness:
  "Canceled \<notin> {OK, InvalidArgument, NotFound, Internal, Unavailable} \<and>
   getStatusCode (Some (StatusError Canceled ''canceled'')) = ''error'' \<and>
   getStatusCode (Some (StatusError DeadlineExceeded ''canceled'')) = ''error'' \<and>
   getErrorType (Some (StatusError DeadlineExceeded ''canceled'')) = ''timeout'' \<and>
   getErrorType (Some (StatusError Canceled ''canceled'')) \<noteq> ''timeout'' \<and>
   Canceled \<notin> {InvalidArgument, NotFound, Internal, Unavailable, DeadlineExceeded} \<and>
   getErrorType (Some (StatusError Canceled ''canceled'')) = ''unknown_error'' \<and>
   getStatusCode (Some (StatusError InvalidArgument ''canceled'')) = ''invalid_argument'' \<and>
   getErrorType (Some (StatusError InvalidArgument ''canceled'')) = ''invalid_input''"
  using error_taxonomies_differ [of "Some (StatusError DeadlineExceeded ''canceled'')" "''canceled''" Canceled]
    error_taxonomies_differ [of "Some (StatusError Canceled ''canceled'')" "''canceled''" Canceled]
  by simp

section \<open>Properties of the metrics recorder\<close>

lemma validate_ingredients_map:
  "validate_ingredients xs = map (\<lambda>i. IncrementIngredientValidations i True) xs"
  by (induction xs) simp_all

lemma filter_validate_ingredients [simp]:
  "filter is_quality (validate_ingredients xs) = validate_ingredients xs"
  "filter is_calculations_total (validate_ingredients xs) = []"
  "filter is_calculation_duration (validate_ingredients xs) = []"
  "filter is_calculation_error (validate_ingredients xs) = []"
  by (induction xs) simp_all

lemma count_validate_ingredients:
  "count_list (validate_ingredients xs) (IncrementIngredientValidations i True) = count_list xs i"
  by (induction xs) simp_all

text \<open>
  C4: for a result with \<open>Success = false\<close>, \<open>RecordCalculation\<close> increments the error
  counter exactly once, keyed by the result's type and error kind, and makes no weight,
  hydration, accuracy or ingredient-validation call, whatever these fields hold.
\<close>

theorem failed_calculation_records_error_only:
  assumes "\<not> Success r"
  shows "filter is_calculation_error (RecordCalculation r) =
           [IncrementCalculationErrors (Type r) (ErrorType r)] \<and>
         filter is_quality (RecordCalculation r) = []"
  using assms by (simp add: RecordCalculation_def)

theorem failed_calculation_records_error_only_witness:
  "\<not> Success failed_result \<and>
   filter is_calculation_error (RecordCalculation failed_result) =
     [IncrementCalculationErrors ''dough_calculation'' ''invalid_ingredients''] \<and>
   filter is_quality (RecordCalculation failed_result) = []"
  using failed_calculation_records_error_only [of failed_result]
  by (simp add: failed_result_def)

text \<open>
  C5: for a result with \<open>Success = true\<close>, \<open>RecordCalculation\<close> records the weight, the
  hydration and the accuracy each exactly when the value is greater than zero (and then
  records that value, once), and increments the ingredient-validation counter with
  \<open>valid = true\<close> once for each entry of the ingredients list, never with
  \<open>valid = false\<close>. With weight 0, hydration 65, accuracy 0 and ingredients
  \<open>["flour"]\<close> the calls are the total count, the duration, the hydration and the
  validation of flour, and nothing else.
\<close>

theorem successful_calculation_records_positive_values:
  assumes "Success r"
  shows
    "filter is_quality (RecordCalculation r) =
       (if gt_zero (Weight r) then [RecordDoughWeight (Weight r)] else []) @
       (if gt_zero (Hydration r) then [RecordDoughHydration (Hydration r)] else []) @
       (if gt_zero (Accuracy r) then [RecordDoughAccuracy (Accuracy r)] else []) @
       map (\<lambda>i. IncrementIngredientValidations i True) (IngredientsUsed r) \<and>
     (RecordDoughWeight w \<in> set (RecordCalculation r) \<longleftrightarrow> gt_zero (Weight r) \<and> w = Weight r) \<and>
     (RecordDoughHydration h \<in> set (RecordCalculation r) \<longleftrightarrow>
        gt_zero (Hydration r) \<and> h = Hydration r) \<and>
     (RecordDoughAccuracy a \<in> set (RecordCalculation r) \<longleftrightarrow>
        gt_zero (Accuracy r) \<and> a = Accuracy r) \<and>
     count_list (RecordCalculation r) (IncrementIngredientValidations i True) =
        count_list (IngredientsUsed r) i \<and>
     IncrementIngredientValidations i False \<notin> set (RecordCalculation r) \<and>
     RecordCalculation
       \<lparr>Type = t, Duration = d, Success = True, ErrorType = k, Weight = Finite 0,
        Hydration = Finite 65, Accuracy = Finite 0, IngredientsUsed = [''flour'']\<rparr> =
       [IncrementCalculationsTotal t, RecordCalculationDuration t d,
        RecordDoughHydration (Finite 65), IncrementIngredientValidations ''flour'' True]"
proof -
  have q: "filter is_quality (RecordCalculation r) =
       (if gt_zero (Weight r) then [RecordDoughWeight (Weight r)] else []) @
       (if gt_zero (Hydration r) then [RecordDoughHydration (Hydration r)] else []) @
       (if gt_zero (Accuracy r) then [RecordDoughAccuracy (Accuracy r)] else []) @
       map (\<lambda>i. IncrementIngredientValidations i True) (IngredientsUsed r)"
    using assms by (simp add: RecordCalculation_def) (simp add: validate_ingredients_map)
  have s: "set (RecordCalculation r) =
      {IncrementCalculationsTotal (Type r), RecordCalculationDuration (Type r) (Duration r)} \<union>
      (if gt_zero (Weight r) then {RecordDoughWeight (Weight r)} else {}) \<union>
      (if gt_zero (Hydration r) then {RecordDoughHydration (Hydration r)} else {}) \<union>
      (if gt_zero (Accuracy r) then {RecordDoughAccuracy (Accuracy r)} else {}) \<union>
      (\<lambda>i. IncrementIngredientValidations i True) ` set (IngredientsUsed r)"
    using assms by (auto simp add: RecordCalculation_def validate_ingredients_map)
  have w: "RecordDoughWeight w \<in> set (RecordCalculation r) \<longleftrightarrow> gt_zero (Weight r) \<and> w = Weight r"
    unfolding s by auto
  have h: "RecordDoughHydration h \<in> set (RecordCalculation r) \<longleftrightarrow>
        gt_zero (Hydration r) \<and> h = Hydration r"
    unfolding s by auto
  have a: "RecordDoughAccuracy a \<in> set (RecordCalculation r) \<longleftrightarrow>
        gt_zero (Accuracy r) \<and> a = Accuracy r"
    unfolding s by auto
  have c: "count_list (RecordCalculation r) (IncrementIngredientValidations i True) =
        count_list (IngredientsUsed r) i"
    using assms by (simp add: RecordCalculation_def count_validate_ingredients)
  have f: "IncrementIngredientValidations i False \<notin> set (RecordCalculation r)"
    unfolding s by auto
  have e: "RecordCalculation
       \<lparr>Type = t, Duration = d, Success = True, ErrorType = k, Weight = Finite 0,
        Hydration = Finite 65, Accuracy = Finite 0, IngredientsUsed = [''flour'']\<rparr> =
       [IncrementCalculationsTotal t, RecordCalculationDuration t d,
        RecordDoughHydration (Finite 65), IncrementIngredientValidations ''flour'' True]"
    by (simp add: RecordCalculation_def)
  from q w h a c f e show ?thesis by blast
qed

theorem successful_calculation_records_positive_values_witness:
  "Success partial_result \<and>
   filter is_quality (RecordCalculation partial_result) =
     [RecordDoughHydration (Finite 65), IncrementIngredientValidations ''flour'' True] \<and>
   RecordDoughWeight (Finite 0) \<notin> set (RecordCalculation partial_result) \<and>
   RecordDoughAccuracy (Finite 0) \<notin> set (RecordCalculation partial_result) \<and>
   RecordDoughHydration (Finite 65) \<in> set (RecordCalculation partial_result)"
  using successful_calculation_records_positive_values
    [of partial_result "Finite 0" "Finite 65" "Finite 0"]
  by (simp add: partial_result_def)

section \<open>Properties of the interceptor\<close>

lemma UnaryServerInterceptor_Returns:
  assumes "handler ctx req = Returns resp err" and "extractMethodName m = Some name"
  shows "UnaryServerInterceptor elapsed ctx req m handler =
    ((if isCalculationMethod m then [SetActiveCalculations 1] else []) @
     [IncrementGRPCRequests name (getStatusCode err), RecordGRPCDuration name elapsed] @
     (if isCalculationMethod m then
        SetActiveCalculations (- 1) #
        (if err \<noteq> None then [IncrementCalculationErrors (getCalculationType m) (getErrorType err)]
         else [IncrementCalculationsTotal (getCalculationType m),
               RecordCalculationDuration (getCalculationType m) elapsed])
      else []),
     Returns resp err)"
  using assms
  by (simp add: UnaryServerInterceptor_def Let_def getCurrentActiveCalculations_def
      extractBusinessMetrics_def)

lemma UnaryServerInterceptor_Panics:
  assumes "handler ctx req = Panics"
  shows "UnaryServerInterceptor elapsed ctx req m handler =
    ((if isCalculationMethod m then [SetActiveCalculations 1] else []), Panics)"
  using assms
  by (simp add: UnaryServerInterceptor_def Let_def getCurrentActiveCalculations_def)

lemma extractMethodName_CalculateDough:
  "extractMethodName ''/calculator.CalculatorService/CalculateDough'' = Some ''CalculateDough''"
  by code_simp

lemma extractMethodName_GetHealth:
  "extractMethodName ''/calculator.CalculatorService/GetHealth'' = Some ''GetHealth''"
  by code_simp

lemma isCalculationMethod_CalculateDough:
  "isCalculationMethod ''/calculator.CalculatorService/CalculateDough''"
  by (simp add: isCalculationMethod_iff)

lemma interceptor_success_trace:
  "fst (UnaryServerInterceptor 10000000 () ''test request''
      ''/calculator.CalculatorService/CalculateDough'' success_handler) =
     [SetActiveCalculations 1,
      IncrementGRPCRequests ''CalculateDough'' ''success'',
      RecordGRPCDuration ''CalculateDough'' 10000000,
      SetActiveCalculations (- 1),
      IncrementCalculationsTotal ''dough_calculation'',
      RecordCalculationDuration ''dough_calculation'' 10000000]"
  by (simp add: UnaryServerInterceptor_Returns [OF _ extractMethodName_CalculateDough]
      success_handler_def isCalculationMethod_CalculateDough getStatusCode_def
      getCalculationType_def)

lemma interceptor_error_trace:
  "fst (UnaryServerInterceptor 10000000 () ''test request''
      ''/calculator.CalculatorService/CalculateDough'' error_handler) =
     [SetActiveCalculations 1,
      IncrementGRPCRequests ''CalculateDough'' ''invalid_argument'',
      RecordGRPCDuration ''CalculateDough'' 10000000,
      SetActiveCalculations (- 1),
      IncrementCalculationErrors ''dough_calculation'' ''invalid_input'']"
  by (simp add: UnaryServerInterceptor_Returns [OF _ extractMethodName_CalculateDough]
      error_handler_def isCalculationMethod_CalculateDough getStatusCode_def
      getCalculationType_def getErrorType_def)

lemma interceptor_panic_trace:
  "fst (UnaryServerInterceptor 10000000 () ''test request''
      ''/calculator.CalculatorService/CalculateDough'' panicking_handler) =
     [SetActiveCalculations 1]"
  by (simp add: UnaryServerInterceptor_Panics panicking_handler_def
      isCalculationMethod_CalculateDough)

text \<open>
  C9: whatever the method address, the request and the handler, the caller of the
  interceptor gets exactly what the handler produced: the same response and the same
  error (nil or not) when it returns, and its panic when it panics.
\<close>

theorem interceptor_returns_handler_result:
  "snd (UnaryServerInterceptor elapsed ctx req m handler) = handler ctx req"
proof (cases "handler ctx req")
  case (Returns resp err)
  obtain name where "extractMethodName m = Some name"
    using extractMethodName_total by blast
  with Returns show ?thesis by (simp add: UnaryServerInterceptor_Returns)
next
  case Panics
  then show ?thesis by (simp add: UnaryServerInterceptor_Panics)
qed

text \<open>
  C3: for a method address that is none of the three business addresses the interceptor
  calls no method of the domain sink at all; when the handler returns, the calls made are
  exactly the two technical ones, the request counter for (method name, status label) and
  the duration histogram for the method name.
\<close>

theorem non_business_technical_only:
  assumes "m \<notin> {''/calculator.CalculatorService/CalculateDough'',
                ''/calculator.CalculatorService/CalculateIngredients'',
                ''/calculator.CalculatorService/OptimizeRecipe''}"
  shows "filter is_domain (fst (UnaryServerInterceptor elapsed ctx req m handler)) = [] \<and>
    (\<forall>resp err. handler ctx req = Returns resp err \<longrightarrow>
       (\<exists>name. extractMethodName m = Some name \<and>
          fst (UnaryServerInterceptor elapsed ctx req m handler) =
            [IncrementGRPCRequests name (getStatusCode err), RecordGRPCDuration name elapsed]))"
proof -
  from assms have nb: "\<not> isCalculationMethod m" by (simp add: isCalculationMethod_iff)
  obtain name where name: "extractMethodName m = Some name"
    using extractMethodName_total by blast
  show ?thesis
  proof (cases "handler ctx req")
    case (Returns resp err)
    with name nb show ?thesis by (simp add: UnaryServerInterceptor_Returns)
  next
    case Panics
    with nb show ?thesis by (simp add: UnaryServerInterceptor_Panics)
  qed
qed

theorem non_business_technical_only_witness:
  "''/calculator.CalculatorService/GetHealth'' \<notin>
      {''/calculator.CalculatorService/CalculateDough'',
       ''/calculator.CalculatorService/CalculateIngredients'',
       ''/calculator.CalculatorService/OptimizeRecipe''} \<and>
   health_handler () ''test request'' = Returns (Some ''health ok'') None \<and>
   filter is_domain (fst (UnaryServerInterceptor 10000000 () ''test request''
      ''/calculator.CalculatorService/GetHealth'' health_handler)) = [] \<and>
   fst (UnaryServerInterceptor 10000000 () ''test request''
      ''/calculator.CalculatorService/GetHealth'' health_handler) =
     [IncrementGRPCRequests ''GetHealth'' ''success'', RecordGRPCDuration ''GetHealth'' 10000000]"
  using non_business_technical_only
    [of "''/calculator.CalculatorService/GetHealth''" 10000000 "()" "''test request''" health_handler]
    extractMethodName_GetHealth
  by (simp add: health_handler_def getStatusCode_def)

text \<open>
  C10: \<open>extractBusinessMetrics\<close> answers nil for every response, so on every path of
  the interceptor no weight, hydration, accuracy, ingredient-validation or recipe-type
  call is made.
\<close>

theorem interceptor_never_records_quality:
  "filter is_quality (fst (UnaryServerInterceptor elapsed ctx req m handler)) = [] \<and>
   extractBusinessMetrics resp = None"
proof (cases "handler ctx req")
  case (Returns resp err)
  obtain name where "extractMethodName m = Some name"
    using extractMethodName_total by blast
  with Returns show ?thesis
    by (simp add: UnaryServerInterceptor_Returns extractBusinessMetrics_def)
next
  case Panics
  then show ?thesis by (simp add: UnaryServerInterceptor_Panics extractBusinessMetrics_def)
qed

text \<open>
  C2, as amended: \<open>RecordCalculation\<close> increments the total counter of the result's type
  exactly once and observes exactly one duration for it, for a successful and for a
  failed result alike. A business call through the interceptor does the same when its
  handler returns no error; when the handler returns an error the interceptor increments
  only the error counter of (type, error kind) and records neither the total nor the
  duration.
\<close>

theorem count_and_duration_once:
  "filter is_calculations_total (RecordCalculation r) = [IncrementCalculationsTotal (Type r)] \<and>
   filter is_calculation_duration (RecordCalculation r) =
     [RecordCalculationDuration (Type r) (Duration r)] \<and>
   (m \<in> {''/calculator.CalculatorService/CalculateDough'',
          ''/calculator.CalculatorService/CalculateIngredients'',
          ''/calculator.CalculatorService/OptimizeRecipe''} \<longrightarrow>
      (handler ctx req = Returns resp None \<longrightarrow>
         filter is_calculations_total (fst (UnaryServerInterceptor elapsed ctx req m handler)) =
           [IncrementCalculationsTotal (getCalculationType m)] \<and>
         filter is_calculation_duration (fst (UnaryServerInterceptor elapsed ctx req m handler)) =
           [RecordCalculationDuration (getCalculationType m) elapsed]) \<and>
      (handler ctx req = Returns resp (Some e) \<longrightarrow>
         filter is_calculations_total (fst (UnaryServerInterceptor elapsed ctx req m handler)) = [] \<and>
         filter is_calculation_duration (fst (UnaryServerInterceptor elapsed ctx req m handler)) = [] \<and>
         filter is_calculation_error (fst (UnaryServerInterceptor elapsed ctx req m handler)) =
           [IncrementCalculationErrors (getCalculationType m) (getErrorType (Some e))]))"
proof -
  obtain name where name: "extractMethodName m = Some name"
    using extractMethodName_total by blast
  have rc: "filter is_calculations_total (RecordCalculation r) = [IncrementCalculationsTotal (Type r)]"
    "filter is_calculation_duration (RecordCalculation r) =
       [RecordCalculationDuration (Type r) (Duration r)]"
    by (simp_all add: RecordCalculation_def)
  have ok: "filter is_calculations_total (fst (UnaryServerInterceptor elapsed ctx req m handler)) =
           [IncrementCalculationsTotal (getCalculationType m)] \<and>
         filter is_calculation_duration (fst (UnaryServerInterceptor elapsed ctx req m handler)) =
           [RecordCalculationDuration (getCalculationType m) elapsed]"
    if "isCalculationMethod m" "handler ctx req = Returns resp None"
    using that name by (simp add: UnaryServerInterceptor_Returns)
  have err: "filter is_calculations_total (fst (UnaryServerInterceptor elapsed ctx req m handler)) = [] \<and>
         filter is_calculation_duration (fst (UnaryServerInterceptor elapsed ctx req m handler)) = [] \<and>
         filter is_calculation_error (fst (UnaryServerInterceptor elapsed ctx req m handler)) =
           [IncrementCalculationErrors (getCalculationType m) (getErrorType (Some e))]"
    if "isCalculationMethod m" "handler ctx req = Returns resp (Some e)"
    using that name by (simp add: UnaryServerInterceptor_Returns)
  define B where "B = {''/calculator.CalculatorService/CalculateDough'',
           ''/calculator.CalculatorService/CalculateIngredients'',
           ''/calculator.CalculatorService/OptimizeRecipe''}"
  have b: "isCalculationMethod m" if "m \<in> B"
    using that by (simp add: B_def isCalculationMethod_iff)
  show ?thesis
    unfolding B_def [symmetric] using rc ok err b by blast
qed

theorem count_and_duration_once_witness:
  "''/calculator.CalculatorService/CalculateDough'' \<in>
      {''/calculator.CalculatorService/CalculateDough'',
       ''/calculator.CalculatorService/CalculateIngredients'',
       ''/calculator.CalculatorService/OptimizeRecipe''} \<and>
   success_handler () ''test request'' = Returns (Some ''success response'') None \<and>
   filter is_calculations_total (fst (UnaryServerInterceptor 10000000 () ''test request''
      ''/calculator.CalculatorService/CalculateDough'' success_handler)) =
     [IncrementCalculationsTotal ''dough_calculation''] \<and>
   filter is_calculation_duration (fst (UnaryServerInterceptor 10000000 () ''test request''
      ''/calculator.CalculatorService/CalculateDough'' success_handler)) =
     [RecordCalculationDuration ''dough_calculation'' 10000000] \<and>
   error_handler () ''test request'' =
     Returns None (Some (StatusError InvalidArgument ''invalid input'')) \<and>
   filter is_calculations_total (fst (UnaryServerInterceptor 10000000 () ''test request''
      ''/calculator.CalculatorService/CalculateDough'' error_handler)) = [] \<and>
   filter is_calculation_duration (fst (UnaryServerInterceptor 10000000 () ''test request''
      ''/calculator.CalculatorService/CalculateDough'' error_handler)) = [] \<and>
   filter is_calculation_error (fst (UnaryServerInterceptor 10000000 () ''test request''
      ''/calculator.CalculatorService/CalculateDough'' error_handler)) =
     [IncrementCalculationErrors ''dough_calculation'' ''invalid_input'']"
  using count_and_duration_once
    [of _ "''/calculator.CalculatorService/CalculateDough''" success_handler "()"
      "''test request''" "Some ''success response''" 10000000]
    count_and_duration_once
    [of _ "''/calculator.CalculatorService/CalculateDough''" error_handler "()"
      "''test request''" None 10000000 "StatusError InvalidArgument ''invalid input''"]
  by (simp add: success_handler_def error_handler_def getCalculationType_def getErrorType_def)

text \<open>
  C2 as stated fails on the interceptor: the call of \<open>CalculateDough\<close> whose handler
  returns an \<open>InvalidArgument\<close> error completes, and neither the total counter nor the
  duration histogram gets anything.
\<close>

theorem failed_call_not_counted_counterexample:
  "length (filter is_calculations_total
      (fst (UnaryServerInterceptor 10000000 () ''test request''
         ''/calculator.CalculatorService/CalculateDough'' error_handler))) = 0 \<and>
   length (filter is_calculation_duration
      (fst (UnaryServerInterceptor 10000000 () ''test request''
         ''/calculator.CalculatorService/CalculateDough'' error_handler))) = 0"
  by (simp add: interceptor_error_trace)

text \<open>
  C1: a business call should raise the in-flight gauge by one and lower it by one, so
  that the gauge never goes negative and is back at its value from before the call. The
  code does not do this. \<open>getCurrentActiveCalculations\<close> always answers 0, so a call
  of \<open>CalculateDough\<close> whose handler succeeds stores 1 and then \<open>-1\<close> in the gauge:
  started at 0, the gauge ends at \<open>-1\<close>. When the handler panics only the first store
  runs and the gauge stays at 1.
\<close>

theorem gauge_left_at_minus_one:
  "gauge_writes (fst (UnaryServerInterceptor 10000000 () ''test request''
      ''/calculator.CalculatorService/CalculateDough'' success_handler)) = [1, - 1] \<and>
   gauge_after 0 (fst (UnaryServerInterceptor 10000000 () ''test request''
      ''/calculator.CalculatorService/CalculateDough'' success_handler)) = - 1 \<and>
   gauge_writes (fst (UnaryServerInterceptor 10000000 () ''test request''
      ''/calculator.CalculatorService/CalculateDough'' panicking_handler)) = [1] \<and>
   gauge_after 0 (fst (UnaryServerInterceptor 10000000 () ''test request''
      ''/calculator.CalculatorService/CalculateDough'' panicking_handler)) = 1"
  by (simp add: interceptor_success_trace interceptor_panic_trace gauge_after_def)

end
